theory Spec2Isabelle
  imports Complex_Main "HOL-Library.Sublist" "HOL-Library.Multiset"
begin

section \<open>Python built-ins used by the scene actor tables\<close>

text \<open>
  The module \<^verbatim>\<open>fast64_internal/z64/exporter/scene/actors.py\<close> works on Python strings,
  lists and dictionaries. The string operations it calls are defined here once, as
  executable functions on \<^typ>\<open>string\<close>.
\<close>

datatype error =
    PluginError string
  | AssertionError
  | KeyError
  | ValueError

text \<open>\<^verbatim>\<open>str(n)\<close> for an integer: decimal digits, a minus sign for negatives.\<close>

definition digit_char :: "nat \<Rightarrow> char" where
  "digit_char d = ''0123456789'' ! d"

fun str_nat :: "nat \<Rightarrow> string" where
  "str_nat n = (if n < 10 then [digit_char n] else str_nat (n div 10) @ [digit_char (n mod 10)])"

declare str_nat.simps [simp del]

definition str_int :: "int \<Rightarrow> string" where
  "str_int i = (if i < 0 then CHR ''-'' # str_nat (nat (- i)) else str_nat (nat i))"

text \<open>\<^verbatim>\<open>f"{x}"\<close> of an \<^verbatim>\<open>Optional\<close> field prints \<^verbatim>\<open>None\<close> when it is unset.\<close>

definition fmt_opt_int :: "int option \<Rightarrow> string" where
  "fmt_opt_int v = (case v of None \<Rightarrow> ''None'' | Some i \<Rightarrow> str_int i)"

definition fmt_opt_str :: "string option \<Rightarrow> string" where
  "fmt_opt_str v = (case v of None \<Rightarrow> ''None'' | Some s \<Rightarrow> s)"

text \<open>\<^verbatim>\<open>sep.join(xs)\<close>.\<close>

fun join :: "string \<Rightarrow> string list \<Rightarrow> string" where
  "join sep [] = []"
| "join sep [x] = x"
| "join sep (x # y # ys) = x @ sep @ join sep (y # ys)"

text \<open>\<^verbatim>\<open>f"{desc:30}"\<close>: a string padded with spaces on the right to the given width.\<close>

definition ljust :: "nat \<Rightarrow> string \<Rightarrow> string" where
  "ljust w s = s @ replicate (w - length s) CHR '' ''"

text \<open>
  \<^verbatim>\<open>round(x)\<close> with one argument: the nearest integer, a tie going to the even
  neighbour. On an integer it is the identity.
\<close>

definition py_round :: "rat \<Rightarrow> int" where
  "py_round x =
     (let f = \<lfloor>x\<rfloor>; d = x - of_int f
      in if d < 1 / 2 then f
         else if 1 / 2 < d then f + 1
         else if even f then f else f + 1)"

text \<open>\<^verbatim>\<open>s.removeprefix(p)\<close> and \<^verbatim>\<open>s.removesuffix(p)\<close>.\<close>

definition removeprefix :: "string \<Rightarrow> string \<Rightarrow> string" where
  "removeprefix p s = (if prefix p s then drop (length p) s else s)"

definition removesuffix :: "string \<Rightarrow> string \<Rightarrow> string" where
  "removesuffix p s = (if p \<noteq> [] \<and> suffix p s then take (length s - length p) s else s)"

text \<open>
  \<^verbatim>\<open>s.split(sep)\<close> with an explicit separator: the pieces between the non-overlapping
  occurrences of \<^verbatim>\<open>sep\<close>, found from the left; an empty string gives one empty piece.
  The source only passes the literal separators \<^verbatim>\<open>","\<close>, \<^verbatim>\<open>"},"\<close> and \<^verbatim>\<open>",},{"\<close>; for
  an empty separator Python raises, which no call reaches, and the model returns the
  string unsplit.
\<close>

function split_str :: "string \<Rightarrow> string \<Rightarrow> string list" where
  "split_str sep s =
     (if sep = [] then [s]
      else if s = [] then [[]]
      else if prefix sep s then [] # split_str sep (drop (length sep) s)
      else (case split_str sep (tl s) of
              [] \<Rightarrow> [[hd s]]
            | x # xs \<Rightarrow> (hd s # x) # xs))"
  by pat_completeness auto
termination
  by (relation "measure (\<lambda>(sep, s). length s)") (auto simp: prefix_def)

declare split_str.simps [simp del]

text \<open>
  \<^verbatim>\<open>s.replace(old, new)\<close>: every non-overlapping occurrence of \<^verbatim>\<open>old\<close>, from the left,
  becomes \<^verbatim>\<open>new\<close>. With an empty \<^verbatim>\<open>old\<close> Python puts \<^verbatim>\<open>new\<close> around every character.
\<close>

function replace_str :: "string \<Rightarrow> string \<Rightarrow> string \<Rightarrow> string" where
  "replace_str old new s =
     (if old = [] then new @ concat (map (\<lambda>c. c # new) s)
      else if s = [] then []
      else if prefix old s then new @ replace_str old new (drop (length old) s)
      else hd s # replace_str old new (tl s))"
  by pat_completeness auto
termination
  by (relation "measure (\<lambda>(old, new, s). length s)") (auto simp: prefix_def)

declare replace_str.simps [simp del]

text \<open>\<^verbatim>\<open>sub in s\<close> for strings: \<^verbatim>\<open>sub\<close> occurs as a contiguous piece of \<^verbatim>\<open>s\<close>.\<close>

fun contains :: "string \<Rightarrow> string \<Rightarrow> bool" where
  "contains sub [] = (sub = [])"
| "contains sub (c # cs) = (prefix sub (c # cs) \<or> contains sub cs)"

section \<open>Actor entries\<close>

text \<open>
  \<^verbatim>\<open>Actor\<close> is the base class of both entry kinds. Its declaration lives in
  \<^verbatim>\<open>exporter/actor.py\<close>; the fields are the five that this module assigns and reads.
  A position component is a Python number (the serializer rounds it), a rotation is the
  text of a C expression.
\<close>

record Actor =
  name :: string
  id' :: string
  pos :: "rat list"
  rot :: string
  params :: string

record TransitionActor = Actor +
  isRoomTransition :: "bool option"
  roomFrom :: "int option"
  roomTo :: "int option"
  cameraFront :: "string option"
  cameraBack :: "string option"

record EntranceActor = Actor +
  roomIndex :: "int option"
  spawnIndex :: "int option"

text \<open>
  \<^verbatim>\<open>TransitionActor.getEntryC\<close>. The constant \<^verbatim>\<open>indent\<close> is imported from the add-on's
  \<^verbatim>\<open>utility\<close> module; it is the first argument here.
\<close>

definition sides :: "TransitionActor \<Rightarrow> (int option \<times> string option) list" where
  "sides a = [(roomFrom a, cameraFront a), (roomTo a, cameraBack a)]"

definition roomData :: "TransitionActor \<Rightarrow> string" where
  "roomData a =
     ''{ '' @ join '', '' (map (\<lambda>(room, cam). fmt_opt_int room @ '', '' @ fmt_opt_str cam) (sides a))
     @ '' }''"

definition posData :: "TransitionActor \<Rightarrow> string" where
  "posData a = ''{ '' @ join '', '' (map (\<lambda>p. str_int (py_round p)) (pos a)) @ '' }''"

definition actorInfos :: "TransitionActor \<Rightarrow> string list" where
  "actorInfos a = [roomData a, id' a, posData a, rot a, params a]"

definition infoDescs :: "string list" where
  "infoDescs =
     [''Room & Cam Index (Front, Back)'', ''Actor ID'', ''Position'', ''Rotation Y'', ''Parameters'']"

definition getEntryC :: "string \<Rightarrow> TransitionActor \<Rightarrow> string" where
  "getEntryC indent a =
     (if name a \<noteq> [] then indent @ ''// '' @ name a @ ''\<newline>'' @ indent else [])
     @ ''{\<newline>''
     @ join '',\<newline>''
         (map (\<lambda>(desc, info). (indent @ indent) @ ''/* '' @ ljust 30 desc @ '' */ '' @ info)
            (zip infoDescs (actorInfos a)))
     @ (''\<newline>'' @ indent @ ''},\<newline>'')"

record SceneTransitionActors =
  tname :: string
  tentries :: "TransitionActor list"


definition getCmd_trans :: "string \<Rightarrow> SceneTransitionActors \<Rightarrow> string" where
  "getCmd_trans indent t =
     indent @ ''SCENE_CMD_TRANSITION_ACTOR_LIST('' @ str_int (int (length (tentries t)))
       @ '', '' @ tname t @ ''),\<newline>''"


record SceneEntranceActors =
  ename :: string
  eentries :: "EntranceActor list"

definition getCmd :: "string \<Rightarrow> SceneEntranceActors \<Rightarrow> string" where
  "getCmd indent t =
     (let name = (if length (eentries t) > 0 then ename t else ''NULL'')
      in indent @ ''SCENE_CMD_SPAWN_LIST('' @ str_int (int (length (eentries t)))
           @ '', '' @ name @ ''),\<newline>'')"

record SceneSpawns =
  sname :: string
  sentries :: "EntranceActor list"

definition getCmd_spawns :: "string \<Rightarrow> SceneSpawns \<Rightarrow> string" where
  "getCmd_spawns indent t =
     indent @ ''SCENE_CMD_ENTRANCE_LIST(''
       @ (if length (sentries t) > 0 then sname t else ''NULL'') @ ''),\<newline>''"

section \<open>Parsing a transition actor table\<close>

definition bind_err :: "error + 'a \<Rightarrow> ('a \<Rightarrow> error + 'b) \<Rightarrow> error + 'b" where
  "bind_err m f = (case m of Inl e \<Rightarrow> Inl e | Inr x \<Rightarrow> f x)"

text \<open>
  The loop \<^verbatim>\<open>for p in params: if p == "": params.remove(p)\<close> changes the list it walks.
  Python's list iterator keeps an index: each round reads the element at the index, if
  there still is one, and moves on by one; \<^verbatim>\<open>remove\<close> deletes the first equal element.
\<close>

function remove_empty :: "nat \<Rightarrow> string list \<Rightarrow> string list" where
  "remove_empty i ps =
     (if i < length ps
      then (if ps ! i = [] then remove_empty (Suc i) (remove1 [] ps)
            else remove_empty (Suc i) ps)
      else ps)"
  by pat_completeness auto
termination
  by (relation "measure (\<lambda>(i, ps). length ps - i)") (auto simp: length_remove1)

declare remove_empty.simps [simp del]

text \<open>
  One round of the loop of \<^verbatim>\<open>SceneTransitionActors.from_data\<close>, for a row that is not
  empty. \<^verbatim>\<open>hexOrDecInt\<close> and \<^verbatim>\<open>getEvalParams\<close> come from the add-on's utility modules and
  are arguments; either may raise. A failed \<^verbatim>\<open>assert\<close> is \<^const>\<open>AssertionError\<close>.
\<close>

definition row_params :: "string \<Rightarrow> string list" where
  "row_params entry =
     remove_empty 0 (split_str '','' (replace_str ''}'' [] (replace_str ''{'' [] entry)))"

definition from_data_entry ::
  "(string \<Rightarrow> error + int) \<Rightarrow> (string \<Rightarrow> error + string) \<Rightarrow> string \<Rightarrow> error + TransitionActor"
where
  "from_data_entry hexOrDecInt getEvalParams entry =
     (let params = row_params entry
      in if length params \<noteq> 10 then Inl AssertionError
         else
           bind_err (hexOrDecInt (params ! 5)) (\<lambda>x.
           bind_err (hexOrDecInt (params ! 6)) (\<lambda>y.
           bind_err (hexOrDecInt (params ! 7)) (\<lambda>z.
           bind_err (if contains ''DEG_TO_BINANG'' (params ! 8)
                     then getEvalParams (params ! 8) else Inr (params ! 8)) (\<lambda>r.
           bind_err (hexOrDecInt (params ! 0)) (\<lambda>rf.
           bind_err (hexOrDecInt (params ! 2)) (\<lambda>rt.
             Inr \<lparr> name = ''(unset)'', id' = params ! 4,
                   pos = [of_int x, of_int y, of_int z], rot = r, params = params ! 9,
                   isRoomTransition = Some (rf \<noteq> rt), roomFrom = Some rf, roomTo = Some rt,
                   cameraFront = Some (params ! 1), cameraBack = Some (params ! 3) \<rparr>)))))))"

fun from_data_loop ::
  "(string \<Rightarrow> error + int) \<Rightarrow> (string \<Rightarrow> error + string) \<Rightarrow> string list
     \<Rightarrow> error + TransitionActor list"
where
  "from_data_loop h g [] = Inr []"
| "from_data_loop h g (entry # rest) =
     (if entry = [] then from_data_loop h g rest
      else bind_err (from_data_entry h g entry) (\<lambda>a.
           bind_err (from_data_loop h g rest) (\<lambda>as. Inr (a # as))))"

definition from_data ::
  "(string \<Rightarrow> error + int) \<Rightarrow> (string \<Rightarrow> error + string) \<Rightarrow> string \<Rightarrow> bool
     \<Rightarrow> error + SceneTransitionActors"
where
  "from_data hexOrDecInt getEvalParams raw_data not_zapd_assets =
     (let entries =
            (if not_zapd_assets
             then split_str '',},{'' (removesuffix '',},'' (removeprefix ''{'' raw_data))
             else split_str ''},'' raw_data)
      in bind_err (from_data_loop hexOrDecInt getEvalParams entries) (\<lambda>actor_list.
           Inr \<lparr> tname = ''(unset)'', tentries = actor_list \<rparr>))"

section \<open>The scene graph and the host services\<close>

text \<open>
  The builders read a Blender scene. An object is a reference; what the code reads from
  an object is a field of the store \<open>bl\<close>, indexed by the reference, so that two objects
  are the same dictionary key exactly when they are the same reference.
  \<^verbatim>\<open>obj.ootRoomHeader.roomIndex\<close> is the field \<open>roomIndex'\<close>.
\<close>

type_synonym Object = nat

record 'hs OOTActorProperty =
  headerSettings :: 'hs
  actor_id :: string
  actor_id_custom :: string
  params' :: string
  params_custom :: string

record 'hs OOTTransitionActorProperty =
  actor :: "'hs OOTActorProperty"
  isRoomTransition' :: bool
  fromRoom :: "Object option"
  toRoom :: "Object option"

record 'hs OOTEntranceProperty =
  actor' :: "'hs OOTActorProperty"
  customActor :: bool
  tiedRoom :: "Object option"
  spawnIndex' :: int

record 'hs bpy =
  obj_type :: "Object \<Rightarrow> string"
  ootEmptyType :: "Object \<Rightarrow> string"
  children_recursive :: "Object \<Rightarrow> Object list"
  roomIndex' :: "Object \<Rightarrow> int"
  ootTransitionActorProperty :: "Object \<Rightarrow> 'hs OOTTransitionActorProperty"
  ootEntranceProperty :: "Object \<Rightarrow> 'hs OOTEntranceProperty"
  use_new_actor_panel :: bool

text \<open>
  The functions and tables of the add-on that the builders call and that are defined in
  other modules: \<^verbatim>\<open>Utility.isCurrentHeaderValid\<close>, \<^verbatim>\<open>Utility.getConvertedTransform\<close> (its
  first two results, the position and the three rotation components),
  \<^verbatim>\<open>Utility.getPropValue\<close> and the display
  name stored under a key of \<^verbatim>\<open>game_data.z64.actors.actorsByID\<close>. The table is a
  dictionary: a key it does not hold raises \<^const>\<open>KeyError\<close>.
\<close>

record ('hs, 'tf) host =
  isCurrentHeaderValid :: "'hs \<Rightarrow> int \<Rightarrow> bool"
  getConvertedTransform :: "'tf \<Rightarrow> Object \<Rightarrow> Object \<Rightarrow> bool \<Rightarrow> rat list \<times> (rat \<times> rat \<times> rat)"
  getPropValue :: "'hs OOTTransitionActorProperty \<Rightarrow> string \<Rightarrow> string"
  actorsByID :: "string \<rightharpoonup> string"

text \<open>
  Modelled from the spec: \<^verbatim>\<open>getObjectList\<close> is imported from \<^verbatim>\<open>z64/utility.py\<close>, which
  is not among the sources. The specification describes it as type-and-kind filtering:
  only objects of the given type and marker kind take part.
\<close>

definition getObjectList :: "'hs bpy \<Rightarrow> Object list \<Rightarrow> string \<Rightarrow> string \<Rightarrow> Object list" where
  "getObjectList bl objs ty kind =
     filter (\<lambda>obj. obj_type bl obj = ty \<and> ootEmptyType bl obj = kind) objs"

text \<open>
  \<^verbatim>\<open>f"{x:.3f}"\<close>: the decimal expansion with three digits after the point, correctly
  rounded (a tie goes to the even neighbour), the sign kept even when the digits are all
  zero. The value formatted is \<^verbatim>\<open>r * (180 / 0x8000)\<close>; the factor is a power of two times
  45, so for an integral binary angle \<^verbatim>\<open>r\<close> the product is exact and the rational number
  below is the floating-point value that Python formats.
\<close>

definition pad3 :: "nat \<Rightarrow> string" where
  "pad3 n = [digit_char (n div 100 mod 10), digit_char (n div 10 mod 10), digit_char (n mod 10)]"

definition fmt_3f :: "rat \<Rightarrow> string" where
  "fmt_3f x =
     (let m = nat (py_round (\<bar>x\<bar> * 1000))
      in (if x < 0 then ''-'' else []) @ str_nat (m div 1000) @ ''.'' @ pad3 (m mod 1000))"

definition deg_to_binang :: "rat \<Rightarrow> string" where
  "deg_to_binang r = ''DEG_TO_BINANG('' @ fmt_3f (r * (180 / 32768)) @ '')''"

text \<open>The display name both builders compute from the actor property.\<close>

definition actor_name :: "('hs, 'tf) host \<Rightarrow> 'hs OOTActorProperty \<Rightarrow> error + string" where
  "actor_name hs actorProp =
     (if actor_id actorProp \<noteq> ''Custom''
      then (case actorsByID hs (actor_id actorProp) of
              None \<Rightarrow> Inl KeyError
            | Some n \<Rightarrow>
                Inr (replace_str ('' - '' @ removeprefix ''ACTOR_'' (actor_id actorProp)) [] n))
      else Inr ''Custom Actor'')"

definition valid_actor :: "('hs, 'tf) host \<Rightarrow> 'hs OOTActorProperty \<Rightarrow> int \<Rightarrow> bool" where
  "valid_actor hs actorProp headerIndex \<longleftrightarrow>
     isCurrentHeaderValid hs (headerSettings actorProp) headerIndex
     \<and> actor_id actorProp \<noteq> ''None''"

section \<open>Building the transition actor table\<close>

text \<open>
  Lines 53 to 58 of \<^verbatim>\<open>SceneTransitionActors.new\<close>: every transition marker below a
  room container is entered under that room; a later room overwrites an earlier one.
\<close>

definition is_transition_marker :: "'hs bpy \<Rightarrow> Object \<Rightarrow> bool" where
  "is_transition_marker bl childObj \<longleftrightarrow>
     obj_type bl childObj = ''EMPTY'' \<and> ootEmptyType bl childObj = ''Transition Actor''"

definition actorToRoom :: "'hs bpy \<Rightarrow> Object \<Rightarrow> (Object \<rightharpoonup> Object)" where
  "actorToRoom bl sceneObj =
     fold (\<lambda>obj m.
             fold (\<lambda>childObj m'. if is_transition_marker bl childObj then m'(childObj \<mapsto> obj) else m')
               (children_recursive bl obj) m)
       (getObjectList bl (children_recursive bl sceneObj) ''EMPTY'' ''Room'')
       Map.empty"

text \<open>
  Line 61: the markers are sorted, stably, by the room index of the room they were
  entered under. A marker that was entered under no room raises \<^const>\<open>KeyError\<close>.
\<close>

definition sorted_markers :: "'hs bpy \<Rightarrow> Object \<Rightarrow> error + Object list" where
  "sorted_markers bl sceneObj =
     (let a2r = actorToRoom bl sceneObj;
          actorObjList = getObjectList bl (children_recursive bl sceneObj) ''EMPTY'' ''Transition Actor''
      in if \<exists>obj \<in> set actorObjList. a2r obj = None then Inl KeyError
         else Inr (sort_key (\<lambda>obj. roomIndex' bl (the (a2r obj))) actorObjList))"

text \<open>
  The body of the loop for one marker: \<^const>\<open>None\<close> when the marker is skipped, the entry
  otherwise. \<^verbatim>\<open>isRoomTransition\<close> of the entry is never assigned and keeps the default of
  the class.
\<close>

definition transition_entry ::
  "'hs bpy \<Rightarrow> ('hs, 'tf) host \<Rightarrow> (Object \<rightharpoonup> Object) \<Rightarrow> Object \<Rightarrow> 'tf \<Rightarrow> int \<Rightarrow> Object
     \<Rightarrow> error + TransitionActor option"
where
  "transition_entry bl hs a2r sceneObj transform headerIndex obj =
     (let transActorProp = ootTransitionActorProperty bl obj;
          actorProp = actor transActorProp
      in if valid_actor hs actorProp headerIndex then
           (let (pos, rot) = getConvertedTransform hs transform sceneObj obj True
            in bind_err
                 (if isRoomTransition' transActorProp then
                    (case (fromRoom transActorProp, toRoom transActorProp) of
                       (Some fr, Some to) \<Rightarrow> Inr (roomIndex' bl fr, roomIndex' bl to)
                     | _ \<Rightarrow> Inl (PluginError ''ERROR: Missing room empty object assigned to transition.''))
                  else (case a2r obj of
                          None \<Rightarrow> Inl KeyError
                        | Some room \<Rightarrow> Inr (roomIndex' bl room, roomIndex' bl room)))
                 (\<lambda>(fromIndex, toIndex).
            let front = (fromIndex, getPropValue hs transActorProp ''cameraTransitionFront'');
                back = (toIndex, getPropValue hs transActorProp ''cameraTransitionBack'')
            in bind_err (actor_name hs actorProp) (\<lambda>nm.
               Inr (Some
                 \<lparr> name = nm,
                   id' = (if actor_id actorProp = ''Custom'' then actor_id_custom actorProp
                          else actor_id actorProp),
                   pos = pos,
                   rot = deg_to_binang (fst (snd rot)),
                   params = (if use_new_actor_panel bl \<and> actor_id actorProp \<noteq> ''Custom''
                             then params' actorProp else params_custom actorProp),
                   isRoomTransition = None,
                   roomFrom = Some (fst front), roomTo = Some (fst back),
                   cameraFront = Some (snd front), cameraBack = Some (snd back) \<rparr>))))
         else Inr None)"

fun transition_loop ::
  "'hs bpy \<Rightarrow> ('hs, 'tf) host \<Rightarrow> (Object \<rightharpoonup> Object) \<Rightarrow> Object \<Rightarrow> 'tf \<Rightarrow> int \<Rightarrow> Object list
     \<Rightarrow> error + TransitionActor list"
where
  "transition_loop bl hs a2r sceneObj transform headerIndex [] = Inr []"
| "transition_loop bl hs a2r sceneObj transform headerIndex (obj # objs) =
     bind_err (transition_entry bl hs a2r sceneObj transform headerIndex obj) (\<lambda>e.
     bind_err (transition_loop bl hs a2r sceneObj transform headerIndex objs) (\<lambda>es.
       Inr (case e of None \<Rightarrow> es | Some a \<Rightarrow> a # es)))"

definition new_trans ::
  "'hs bpy \<Rightarrow> ('hs, 'tf) host \<Rightarrow> string \<Rightarrow> Object \<Rightarrow> 'tf \<Rightarrow> int \<Rightarrow> error + SceneTransitionActors"
where
  "new_trans bl hs nm sceneObj transform headerIndex =
     bind_err (sorted_markers bl sceneObj) (\<lambda>actorObjList.
     bind_err (transition_loop bl hs (actorToRoom bl sceneObj) sceneObj transform headerIndex
                 actorObjList) (\<lambda>entries.
       Inr \<lparr> tname = nm, tentries = entries \<rparr>))"

section \<open>Building the entrance actor table\<close>

text \<open>
  \<^verbatim>\<open>entranceActorFromIndex\<close> is a dictionary; Python keeps its keys in insertion order,
  so it is a list of pairs with distinct keys. One round of the loop of
  \<^verbatim>\<open>SceneEntranceActors.new\<close> returns the dictionary after the round.
\<close>

definition entrance_step ::
  "'hs bpy \<Rightarrow> ('hs, 'tf) host \<Rightarrow> Object \<Rightarrow> 'tf \<Rightarrow> int \<Rightarrow> (int \<times> EntranceActor) list \<Rightarrow> Object
     \<Rightarrow> error + (int \<times> EntranceActor) list"
where
  "entrance_step bl hs sceneObj transform headerIndex entranceActorFromIndex obj =
     (let entranceProp = ootEntranceProperty bl obj;
          actorProp = actor' entranceProp
      in if valid_actor hs actorProp headerIndex then
           (let (pos, rot) = getConvertedTransform hs transform sceneObj obj True
            in bind_err (actor_name hs actorProp) (\<lambda>nm.
               case tiedRoom entranceProp of
                 None \<Rightarrow> Inl (PluginError ''ERROR: Missing room empty object assigned to the entrance.'')
               | Some room \<Rightarrow>
                   (let entranceActor =
                      \<lparr> name = nm,
                        id' = (if \<not> customActor entranceProp then ''ACTOR_PLAYER''
                               else actor_id_custom actorProp),
                        pos = pos,
                        rot = join '', '' (map deg_to_binang [fst rot, fst (snd rot), snd (snd rot)]),
                        params = (if use_new_actor_panel bl \<and> \<not> customActor entranceProp
                                  then params' actorProp else params_custom actorProp),
                        roomIndex = Some (roomIndex' bl room),
                        spawnIndex = Some (spawnIndex' entranceProp) \<rparr>
                    in if spawnIndex' entranceProp \<notin> fst ` set entranceActorFromIndex
                       then Inr (entranceActorFromIndex @ [(spawnIndex' entranceProp, entranceActor)])
                       else Inl (PluginError (''ERROR: Repeated Spawn Index: ''
                                                @ str_int (spawnIndex' entranceProp))))))
         else Inr entranceActorFromIndex)"

fun entrance_loop ::
  "'hs bpy \<Rightarrow> ('hs, 'tf) host \<Rightarrow> Object \<Rightarrow> 'tf \<Rightarrow> int \<Rightarrow> (int \<times> EntranceActor) list \<Rightarrow> Object list
     \<Rightarrow> error + (int \<times> EntranceActor) list"
where
  "entrance_loop bl hs sceneObj transform headerIndex d [] = Inr d"
| "entrance_loop bl hs sceneObj transform headerIndex d (obj # objs) =
     bind_err (entrance_step bl hs sceneObj transform headerIndex d obj) (\<lambda>d'.
       entrance_loop bl hs sceneObj transform headerIndex d' objs)"

text \<open>
  Lines 222 to 226: the items are sorted (the keys are distinct, so the order is the
  order of the keys) and the keys are compared with \<^verbatim>\<open>range(len(...))\<close>.
\<close>

definition finish_entrances :: "string \<Rightarrow> (int \<times> EntranceActor) list \<Rightarrow> error + SceneEntranceActors" where
  "finish_entrances nm d =
     (let entranceActorFromIndex = sort_key fst d
      in if map fst entranceActorFromIndex \<noteq> map int [0 ..< length entranceActorFromIndex]
         then Inl (PluginError ''ERROR: The spawn indices are not consecutive!'')
         else Inr \<lparr> ename = nm, eentries = map snd entranceActorFromIndex \<rparr>)"

definition collect_entrances ::
  "'hs bpy \<Rightarrow> ('hs, 'tf) host \<Rightarrow> Object \<Rightarrow> 'tf \<Rightarrow> int \<Rightarrow> error + (int \<times> EntranceActor) list"
where
  "collect_entrances bl hs sceneObj transform headerIndex =
     entrance_loop bl hs sceneObj transform headerIndex []
       (getObjectList bl (children_recursive bl sceneObj) ''EMPTY'' ''Entrance'')"

definition new_entr ::
  "'hs bpy \<Rightarrow> ('hs, 'tf) host \<Rightarrow> string \<Rightarrow> Object \<Rightarrow> 'tf \<Rightarrow> int \<Rightarrow> error + SceneEntranceActors"
where
  "new_entr bl hs nm sceneObj transform headerIndex =
     bind_err (collect_entrances bl hs sceneObj transform headerIndex) (finish_entrances nm)"

section \<open>Notions used to state the properties\<close>

text \<open>The entrance markers of a scene, the ones the build does not skip, and their slots.\<close>

definition entrance_markers :: "'hs bpy \<Rightarrow> Object \<Rightarrow> Object list" where
  "entrance_markers bl sceneObj =
     getObjectList bl (children_recursive bl sceneObj) ''EMPTY'' ''Entrance''"

definition entrance_valid :: "'hs bpy \<Rightarrow> ('hs, 'tf) host \<Rightarrow> int \<Rightarrow> Object \<Rightarrow> bool" where
  "entrance_valid bl hs headerIndex obj \<longleftrightarrow>
     valid_actor hs (actor' (ootEntranceProperty bl obj)) headerIndex"

definition claimed_index :: "'hs bpy \<Rightarrow> Object \<Rightarrow> int" where
  "claimed_index bl obj = spawnIndex' (ootEntranceProperty bl obj)"

text \<open>
  An entrance marker is ready when none of the checks that precede the test for a
  repeated spawn index can fail for it: it has a tied room and the actor table knows its
  actor id.
\<close>

definition entrance_ready :: "'hs bpy \<Rightarrow> ('hs, 'tf) host \<Rightarrow> Object \<Rightarrow> bool" where
  "entrance_ready bl hs obj \<longleftrightarrow>
     tiedRoom (ootEntranceProperty bl obj) \<noteq> None
     \<and> \<not> isl (actor_name hs (actor' (ootEntranceProperty bl obj)))"

definition repeated_index_error :: "int \<Rightarrow> error" where
  "repeated_index_error i = PluginError (''ERROR: Repeated Spawn Index: '' @ str_int i)"




definition transition_valid :: "'hs bpy \<Rightarrow> ('hs, 'tf) host \<Rightarrow> int \<Rightarrow> Object \<Rightarrow> bool" where
  "transition_valid bl hs headerIndex obj \<longleftrightarrow>
     valid_actor hs (actor (ootTransitionActorProperty bl obj)) headerIndex"

text \<open>
  The room containers of a scene, the room index of the room a marker was entered under
  in lines 53 to 58, and the relation between an entry of the table and the marker it was
  built from.
\<close>

definition room_containers :: "'hs bpy \<Rightarrow> Object \<Rightarrow> Object list" where
  "room_containers bl sceneObj = getObjectList bl (children_recursive bl sceneObj) ''EMPTY'' ''Room''"



text \<open>The decimal digits.\<close>

definition digits :: "char set" where
  "digits = set ''0123456789''"



text \<open>
  A token is a value that can stand in such a row: not empty, without comma or brace.
  An entry is readable when its values are tokens, the three position components and
  both room indices are there, \<^verbatim>\<open>hexOrDecInt\<close> reads the decimal numbers of the row back,
  and \<^verbatim>\<open>getEvalParams\<close> evaluates the rotation expression, to \<open>ev\<close> of it. The entry that
  comes back is \<open>reparsed ev a\<close>.
\<close>

definition token :: "string \<Rightarrow> bool" where
  "token s \<longleftrightarrow> s \<noteq> [] \<and> CHR '','' \<notin> set s \<and> CHR ''{'' \<notin> set s \<and> CHR ''}'' \<notin> set s"



text \<open>
  The same values laid out in the other convention that \<^const>\<open>from_data\<close> reads, the
  one with an enclosing brace per row and a comma after the last value: the values that
  \<^const>\<open>getEntryC\<close> annotates, joined by commas, with their inner braces and without
  blanks; rows are separated by \<^verbatim>\<open>,},{\<close>.
\<close>

definition nested_row :: "TransitionActor \<Rightarrow> string" where
  "nested_row a =
     ''{'' @ join '','' [fmt_opt_int (roomFrom a), fmt_opt_str (cameraFront a),
                        fmt_opt_int (roomTo a), fmt_opt_str (cameraBack a)]
     @ ''},'' @ id' a @ '',{'' @ join '','' (map (\<lambda>p. str_int (py_round p)) (pos a))
     @ ''},'' @ rot a @ '','' @ params a"



text \<open>Dropping the trailing empty fields of a row, as the specification words it.\<close>

definition drop_trailing_empty :: "string list \<Rightarrow> string list" where
  "drop_trailing_empty ps = rev (dropWhile (\<lambda>p. p = []) (rev ps))"

section \<open>Example scenes\<close>

text \<open>
  A scene (object 0) with two rooms: room 1 has room index 0 and holds a door (4) that
  leads to the other room and a spawn point (5); room 2 has room index 1 and holds a
  door (3) that stays in its room and a spawn point (6). Blender lists room 2 first.
  Header settings are the list of the headers a marker is active in.
\<close>

definition demo_actor :: "string \<Rightarrow> int list OOTActorProperty" where
  "demo_actor aid =
     \<lparr> headerSettings = [0, 1], actor_id = aid, actor_id_custom = ''ACTOR_CUSTOM'',
       params' = ''0x003F'', params_custom = ''0x0000'' \<rparr>"

definition demo_transition :: "Object \<Rightarrow> int list OOTTransitionActorProperty" where
  "demo_transition obj =
     (if obj = 4
      then \<lparr> actor = demo_actor ''ACTOR_EN_DOOR'', isRoomTransition' = True,
             fromRoom = Some 1, toRoom = Some 2 \<rparr>
      else \<lparr> actor = demo_actor ''ACTOR_EN_DOOR'', isRoomTransition' = False,
             fromRoom = None, toRoom = None \<rparr>)"

definition demo_entrance :: "Object \<Rightarrow> int list OOTEntranceProperty" where
  "demo_entrance obj =
     (if obj = 5
      then \<lparr> actor' = demo_actor ''ACTOR_PLAYER'', customActor = False, tiedRoom = Some 1,
             spawnIndex' = 0 \<rparr>
      else \<lparr> actor' = demo_actor ''ACTOR_PLAYER'', customActor = False, tiedRoom = Some 2,
             spawnIndex' = 1 \<rparr>)"

definition demo_bl :: "int list bpy" where
  "demo_bl =
     \<lparr> obj_type = (\<lambda>obj. ''EMPTY''),
       ootEmptyType = (\<lambda>obj. if obj = 0 then ''Scene'' else if obj = 1 \<or> obj = 2 then ''Room''
                            else if obj = 3 \<or> obj = 4 then ''Transition Actor'' else ''Entrance''),
       children_recursive = (\<lambda>obj. if obj = 0 then [2, 3, 6, 1, 4, 5] else if obj = 1 then [4, 5]
                            else if obj = 2 then [3, 6] else []),
       roomIndex' = (\<lambda>obj. if obj = 2 then 1 else 0),
       ootTransitionActorProperty = demo_transition,
       ootEntranceProperty = demo_entrance,
       use_new_actor_panel = True \<rparr>"

definition demo_host :: "(int list, unit) host" where
  "demo_host =
     \<lparr> isCurrentHeaderValid = (\<lambda>settings headerIndex. headerIndex \<in> set settings),
       getConvertedTransform =
         (\<lambda>transform sceneObj obj flag. ([of_nat obj * 10, 0, - 5], (0, 16384, 0))),
       getPropValue = (\<lambda>prop key. ''0x00''),
       actorsByID = [''ACTOR_EN_DOOR'' \<mapsto> ''Door - EN_DOOR'',
                     ''ACTOR_PLAYER'' \<mapsto> ''Player - PLAYER''] \<rparr>"

text \<open>The same scene with the second spawn point moved to slot 2, which leaves slot 1 empty.\<close>

definition gap_bl :: "int list bpy" where
  "gap_bl =
     demo_bl \<lparr> ootEntranceProperty :=
                 (demo_entrance) (6 := demo_entrance 6 \<lparr> spawnIndex' := 2 \<rparr>) \<rparr>"

text \<open>The spawn point and the door that the example host produces for a marker.\<close>

definition demo_spawn :: "rat \<Rightarrow> int \<Rightarrow> int \<Rightarrow> EntranceActor" where
  "demo_spawn x room slot =
     \<lparr> name = ''Player'', id' = ''ACTOR_PLAYER'', pos = [x, 0, - 5],
       rot = ''DEG_TO_BINANG(0.000), DEG_TO_BINANG(90.000), DEG_TO_BINANG(0.000)'',
       params = ''0x003F'', roomIndex = Some room, spawnIndex = Some slot \<rparr>"

definition demo_door :: "rat \<Rightarrow> int \<Rightarrow> int \<Rightarrow> TransitionActor" where
  "demo_door x room_from room_to =
     \<lparr> name = ''Door'', id' = ''ACTOR_EN_DOOR'', pos = [x, 0, - 5],
       rot = ''DEG_TO_BINANG(90.000)'', params = ''0x003F'', isRoomTransition = None,
       roomFrom = Some room_from, roomTo = Some room_to,
       cameraFront = Some ''0x00'', cameraBack = Some ''0x00'' \<rparr>"

text \<open>
  Both spawn points claim slot 1; in the second scene the spawn point that is read last
  has, in addition, no tied room.
\<close>

definition dup_bl :: "int list bpy" where
  "dup_bl =
     demo_bl \<lparr> ootEntranceProperty :=
                 (demo_entrance) (5 := demo_entrance 5 \<lparr> spawnIndex' := 1 \<rparr>) \<rparr>"

definition dup_noroom_bl :: "int list bpy" where
  "dup_noroom_bl =
     demo_bl \<lparr> ootEntranceProperty :=
                 (demo_entrance) (5 := demo_entrance 5 \<lparr> spawnIndex' := 1, tiedRoom := None \<rparr>) \<rparr>"




text \<open>
  Stand-ins for \<^verbatim>\<open>hexOrDecInt\<close> and \<^verbatim>\<open>getEvalParams\<close> on the literals of the examples, and
  a table with one door.
\<close>

definition demo_hexOrDecInt :: "string \<Rightarrow> error + int" where
  "demo_hexOrDecInt s =
     (if s = ''0'' then Inr 0 else if s = ''1'' then Inr 1 else if s = ''2'' then Inr 2
      else if s = ''3'' then Inr 3 else if s = ''30'' then Inr 30 else if s = ''40'' then Inr 40
      else if s = ''-5'' then Inr (- 5) else Inl ValueError)"

definition demo_getEvalParams :: "string \<Rightarrow> error + string" where
  "demo_getEvalParams s = (if s = ''DEG_TO_BINANG(90.000)'' then Inr ''0x4000'' else Inr s)"


definition link_spawn :: EntranceActor where
  "link_spawn =
     \<lparr> name = ''Player'', id' = ''ACTOR_PLAYER'', pos = [0, 0, 0],
       rot = ''DEG_TO_BINANG(0.000), DEG_TO_BINANG(0.000), DEG_TO_BINANG(0.000)'',
       params = ''0x0FFF'', roomIndex = Some 0, spawnIndex = Some 0 \<rparr>"

section \<open>Basic facts\<close>

lemma bind_err_Inr [simp]: "bind_err (Inr x) f = f x"
  by (simp add: bind_err_def)

lemma bind_err_Inl [simp]: "bind_err (Inl e) f = Inl e"
  by (simp add: bind_err_def)

lemma bind_err_eq_Inr: "bind_err m f = Inr y \<longleftrightarrow> (\<exists>x. m = Inr x \<and> f x = Inr y)"
  by (cases m) auto

text \<open>Values of the example scenes, computed once.\<close>

lemma fmt_3f_0: "fmt_3f 0 = ''0.000''"
  by (simp add: fmt_3f_def py_round_def pad3_def digit_char_def str_nat.simps Let_def)

lemma fmt_3f_90: "fmt_3f 90 = ''90.000''"
  by (simp add: fmt_3f_def py_round_def pad3_def digit_char_def str_nat.simps Let_def)

lemma deg_to_binang_16384: "deg_to_binang 16384 = ''DEG_TO_BINANG(90.000)''"
  by (simp add: deg_to_binang_def fmt_3f_90)

lemma deg_to_binang_0: "deg_to_binang 0 = ''DEG_TO_BINANG(0.000)''"
  by (simp add: deg_to_binang_def fmt_3f_0)

lemma demo_names:
  "removeprefix ''ACTOR_'' ''ACTOR_PLAYER'' = ''PLAYER''"
  "removeprefix ''ACTOR_'' ''ACTOR_EN_DOOR'' = ''EN_DOOR''"
  "replace_str '' - PLAYER'' [] ''Player - PLAYER'' = ''Player''"
  "replace_str '' - EN_DOOR'' [] ''Door - EN_DOOR'' = ''Door''"
  by code_simp+

lemmas demo_defs =
  getObjectList_def demo_bl_def demo_host_def valid_actor_def demo_entrance_def
  demo_transition_def demo_actor_def actor_name_def demo_names deg_to_binang_0
  deg_to_binang_16384 Let_def

section \<open>Serialized rows and commands\<close>

lemma str_nat_0: "str_nat 0 = ''0''"
  by (simp add: str_nat.simps digit_char_def)

text \<open>
  Claim C10. The row that \<^const>\<open>getEntryC\<close> emits for an actor is the row it emits for
  the same actor with an empty name, preceded by the comment line
  \<^verbatim>\<open>indent // name\<close> (and the indentation of the next line) exactly when the name is not
  empty. The row of the actor with the empty name starts with the opening brace, so it
  has no comment line, and it is the same for every name.
\<close>

theorem getEntryC_name_comment:
  "getEntryC ind (a\<lparr>name := n\<rparr>)
     = (if n = [] then [] else ind @ ''// '' @ n @ ''\<newline>'' @ ind)
       @ getEntryC ind (a\<lparr>name := []\<rparr>)
   \<and> take 1 (getEntryC ind (a\<lparr>name := []\<rparr>)) = ''{''"
  by (simp add: getEntryC_def actorInfos_def roomData_def posData_def sides_def)

text \<open>
  Claim C7. For an entrance table without entries \<^const>\<open>getCmd\<close> emits
  \<^verbatim>\<open>SCENE_CMD_SPAWN_LIST(0, NULL),\<close>: the count is 0 and the name argument is the
  sentinel \<^verbatim>\<open>NULL\<close>, whatever the table is called. For a table with entries it emits
  the number of entries and the name of the table.
\<close>

theorem getCmd_null_when_empty:
  "(eentries t = [] \<longrightarrow> getCmd ind t = ind @ ''SCENE_CMD_SPAWN_LIST(0, NULL),\<newline>'')
   \<and> (eentries t \<noteq> [] \<longrightarrow>
        getCmd ind t = ind @ ''SCENE_CMD_SPAWN_LIST('' @ str_int (int (length (eentries t)))
                         @ '', '' @ ename t @ ''),\<newline>'')"
  by (simp add: getCmd_def str_int_def str_nat_0)

theorem getCmd_null_when_empty_witness:
  "getCmd ''    '' \<lparr> ename = ''scene_header00_playerEntryList'', eentries = [] \<rparr>
     = ''    SCENE_CMD_SPAWN_LIST(0, NULL),\<newline>''
   \<and> getCmd ''    '' \<lparr> ename = ''scene_header00_playerEntryList'', eentries = [link_spawn] \<rparr>
     = ''    SCENE_CMD_SPAWN_LIST(1, scene_header00_playerEntryList),\<newline>''"
  using getCmd_null_when_empty
          [of "\<lparr> ename = ''scene_header00_playerEntryList'', eentries = [] \<rparr>" "''    ''"]
        getCmd_null_when_empty
          [of "\<lparr> ename = ''scene_header00_playerEntryList'', eentries = [link_spawn] \<rparr>" "''    ''"]
  by (simp add: str_int_def str_nat.simps digit_char_def)

text \<open>\<^verbatim>\<open>SceneSpawns.getCmd\<close> uses the same sentinel for the entrance list.\<close>

lemma getCmd_spawns_null:
  "sentries t = [] \<Longrightarrow> getCmd_spawns ind t = ind @ ''SCENE_CMD_ENTRANCE_LIST(NULL),\<newline>''"
  "sentries t \<noteq> [] \<Longrightarrow>
     getCmd_spawns ind t = ind @ ''SCENE_CMD_ENTRANCE_LIST('' @ sname t @ ''),\<newline>''"
  by (simp_all add: getCmd_spawns_def)

section \<open>Contiguous spawn indices\<close>

lemma entrance_step_skip:
  "\<not> entrance_valid bl hs hi obj \<Longrightarrow> entrance_step bl hs sc tf hi d obj = Inr d"
  by (simp add: entrance_step_def entrance_valid_def)

lemma entrance_step_Inr:
  assumes "entrance_step bl hs sc tf hi d obj = Inr d'" and "entrance_valid bl hs hi obj"
  shows "\<exists>e. d' = d @ [(claimed_index bl obj, e)] \<and> spawnIndex e = Some (claimed_index bl obj)
            \<and> claimed_index bl obj \<notin> fst ` set d"
  using assms
  by (auto simp: entrance_step_def entrance_valid_def claimed_index_def Let_def bind_err_eq_Inr
           split: prod.splits option.splits if_splits)

lemma entrance_loop_keys:
  "entrance_loop bl hs sc tf hi d objs = Inr d' \<Longrightarrow>
     map fst d' = map fst d @ map (claimed_index bl) (filter (entrance_valid bl hs hi) objs)"
proof (induction objs arbitrary: d)
  case Nil
  then show ?case by simp
next
  case (Cons obj objs)
  from Cons.prems obtain d1 where s: "entrance_step bl hs sc tf hi d obj = Inr d1"
    and l: "entrance_loop bl hs sc tf hi d1 objs = Inr d'"
    by (auto simp: bind_err_eq_Inr)
  note IH = Cons.IH [OF l]
  show ?case
  proof (cases "entrance_valid bl hs hi obj")
    case False
    with s have "d1 = d" by (simp add: entrance_step_skip)
    with IH False show ?thesis by simp
  next
    case True
    from entrance_step_Inr [OF s True] obtain e where
      "d1 = d @ [(claimed_index bl obj, e)]" by blast
    with IH True show ?thesis by simp
  qed
qed

lemma entrance_loop_distinct:
  "entrance_loop bl hs sc tf hi d objs = Inr d' \<Longrightarrow> distinct (map fst d) \<Longrightarrow> distinct (map fst d')"
proof (induction objs arbitrary: d)
  case Nil
  then show ?case by simp
next
  case (Cons obj objs)
  from Cons.prems obtain d1 where s: "entrance_step bl hs sc tf hi d obj = Inr d1"
    and l: "entrance_loop bl hs sc tf hi d1 objs = Inr d'"
    by (auto simp: bind_err_eq_Inr)
  have "distinct (map fst d1)"
  proof (cases "entrance_valid bl hs hi obj")
    case False
    with s Cons.prems show ?thesis by (simp add: entrance_step_skip)
  next
    case True
    from entrance_step_Inr [OF s True] Cons.prems show ?thesis by auto
  qed
  with Cons.IH [OF l] show ?case .
qed

lemma entrance_loop_spawnIndex:
  "entrance_loop bl hs sc tf hi d objs = Inr d' \<Longrightarrow> \<forall>(k, e) \<in> set d. spawnIndex e = Some k
     \<Longrightarrow> \<forall>(k, e) \<in> set d'. spawnIndex e = Some k"
proof (induction objs arbitrary: d)
  case Nil
  then show ?case by simp
next
  case (Cons obj objs)
  from Cons.prems obtain d1 where s: "entrance_step bl hs sc tf hi d obj = Inr d1"
    and l: "entrance_loop bl hs sc tf hi d1 objs = Inr d'"
    by (auto simp: bind_err_eq_Inr)
  have "\<forall>(k, e) \<in> set d1. spawnIndex e = Some k"
  proof (cases "entrance_valid bl hs hi obj")
    case False
    with s Cons.prems show ?thesis by (simp add: entrance_step_skip)
  next
    case True
    from entrance_step_Inr [OF s True] Cons.prems show ?thesis by auto
  qed
  with Cons.IH [OF l] show ?case .
qed

lemma keys_range_iff:
  fixes ks :: "int list"
  assumes "sorted ks" "distinct ks"
  shows "ks = map int [0 ..< length ks] \<longleftrightarrow> set ks = {0 ..< int (length ks)}"
proof
  assume "ks = map int [0 ..< length ks]"
  then have "set ks = int ` {0 ..< length ks}" by (metis set_map set_upt)
  also have "\<dots> = {0 ..< int (length ks)}" by (simp add: image_int_atLeastLessThan)
  finally show "set ks = {0 ..< int (length ks)}" .
next
  assume s: "set ks = {0 ..< int (length ks)}"
  have "set (map int [0 ..< length ks]) = {0 ..< int (length ks)}"
    by (simp add: image_int_atLeastLessThan)
  moreover have "sorted (map int [0 ..< length ks])"
    by (simp add: sorted_map)
  moreover have "distinct (map int [0 ..< length ks])"
    by (simp add: distinct_map)
  ultimately show "ks = map int [0 ..< length ks]"
    using assms s by (intro sorted_distinct_set_unique) auto
qed

lemma finish_entrances_iff:
  assumes "distinct (map fst d)"
  shows "finish_entrances nm d = 
     (if fst ` set d = {0 ..< int (length d)} 
      then Inr \<lparr> ename = nm, eentries = map snd (sort_key fst d) \<rparr>
      else Inl (PluginError ''ERROR: The spawn indices are not consecutive!''))"
proof -
  let ?ks = "map fst (sort_key fst d)"
  have "sorted ?ks" by (rule sorted_sort_key)
  moreover have "distinct ?ks" using assms by (simp add: distinct_map)
  ultimately have "?ks = map int [0 ..< length ?ks] \<longleftrightarrow> set ?ks = {0 ..< int (length ?ks)}"
    by (rule keys_range_iff)
  then show ?thesis by (simp add: finish_entrances_def Let_def)
qed



lemma collect_entrances_keys:
  assumes "collect_entrances bl hs sceneObj tf hi = Inr d"
  shows "map fst d = map (claimed_index bl) (filter (entrance_valid bl hs hi) (entrance_markers bl sceneObj))"
    and "distinct (map fst d)"
    and "\<forall>(k, e) \<in> set d. spawnIndex e = Some k"
  using assms entrance_loop_keys [of bl hs sceneObj tf hi "[]" _ d]
    entrance_loop_distinct [of bl hs sceneObj tf hi "[]" _ d]
    entrance_loop_spawnIndex [of bl hs sceneObj tf hi "[]" _ d]
  by (simp_all add: collect_entrances_def entrance_markers_def)

text \<open>
  Claim C2. Suppose the loop of \<^verbatim>\<open>SceneEntranceActors.new\<close> has collected its dictionary
  \<open>d\<close>; its keys are the spawn indices of the markers that were not skipped, in scene
  order, whatever that order is. If the set of keys is not \<open>{0, ..., N - 1}\<close> for the
  number \<open>N\<close> of collected entries, the build fails with the error about spawn indices
  that are not consecutive. If it is, the build succeeds, the table holds exactly the
  collected entries and their spawn indices read \<open>0, 1, ..., N - 1\<close> in this order.
\<close>

theorem new_entr_contiguity:
  assumes "collect_entrances bl hs sceneObj tf hi = Inr d"
  shows "map fst d = map (claimed_index bl)
                       (filter (entrance_valid bl hs hi) (entrance_markers bl sceneObj))
       \<and> (fst ` set d \<noteq> {0 ..< int (length d)} \<longrightarrow>
            new_entr bl hs nm sceneObj tf hi
              = Inl (PluginError ''ERROR: The spawn indices are not consecutive!''))
       \<and> (fst ` set d = {0 ..< int (length d)} \<longrightarrow>
            (\<exists>t. new_entr bl hs nm sceneObj tf hi = Inr t \<and> ename t = nm
                 \<and> set (eentries t) = snd ` set d
                 \<and> map spawnIndex (eentries t) = map (\<lambda>i. Some (int i)) [0 ..< length d]))"
proof -
  note k = collect_entrances_keys [OF assms]
  let ?s = "sort_key fst d"
  have fin: "new_entr bl hs nm sceneObj tf hi = finish_entrances nm d"
    using assms by (simp add: new_entr_def)
  have "map spawnIndex (map snd ?s) = map (\<lambda>i. Some (int i)) [0 ..< length d]"
    if c: "fst ` set d = {0 ..< int (length d)}"
  proof -
    have "map fst ?s = map int [0 ..< length ?s]"
      using finish_entrances_iff [OF k(2), of nm] c
      by (simp add: finish_entrances_def Let_def split: if_splits)
    moreover have "map spawnIndex (map snd ?s) = map Some (map fst ?s)"
      using k(3) by (auto simp: case_prod_unfold)
    ultimately show ?thesis by (simp add: comp_def)
  qed
  then show ?thesis
    using k(1) fin finish_entrances_iff [OF k(2), of nm] by auto
qed

theorem new_entr_contiguity_witness:
  "(\<exists>t. new_entr demo_bl demo_host ''spawns'' 0 () 0 = Inr t
        \<and> map spawnIndex (eentries t) = [Some 0, Some 1])
   \<and> new_entr gap_bl demo_host ''spawns'' 0 () 0
       = Inl (PluginError ''ERROR: The spawn indices are not consecutive!'')"
proof -
  have c1: "collect_entrances demo_bl demo_host 0 () 0
              = Inr [(1, demo_spawn 60 1 1), (0, demo_spawn 50 0 0)]"
    by (simp add: collect_entrances_def entrance_step_def demo_spawn_def demo_defs)
  have c2: "collect_entrances gap_bl demo_host 0 () 0
              = Inr [(2, demo_spawn 60 1 2), (0, demo_spawn 50 0 0)]"
    by (simp add: collect_entrances_def entrance_step_def demo_spawn_def gap_bl_def demo_defs)
  have s1: "fst ` set [(1::int, demo_spawn 60 1 1), (0, demo_spawn 50 0 0)] = {0 ..< int 2}"
    by auto
  have s2: "fst ` set [(2::int, demo_spawn 60 1 2), (0, demo_spawn 50 0 0)] \<noteq> {0 ..< int 2}"
    by auto
  from new_entr_contiguity [OF c1, of "''spawns''"] s1
  have "\<exists>t. new_entr demo_bl demo_host ''spawns'' 0 () 0 = Inr t
        \<and> map spawnIndex (eentries t) = [Some 0, Some 1]"
    by (auto simp: upt_conv_Cons)
  moreover from new_entr_contiguity [OF c2, of "''spawns''"] s2
  have "new_entr gap_bl demo_host ''spawns'' 0 () 0
       = Inl (PluginError ''ERROR: The spawn indices are not consecutive!'')"
    by simp
  ultimately show ?thesis by simp
qed

section \<open>Repeated spawn indices\<close>

lemma entrance_step_repeated:
  assumes "entrance_valid bl hs hi obj" "entrance_ready bl hs obj"
    and "claimed_index bl obj \<in> fst ` set d"
  shows "entrance_step bl hs sc tf hi d obj = Inl (repeated_index_error (claimed_index bl obj))"
proof -
  from assms(3) have "spawnIndex' (ootEntranceProperty bl obj) \<in> fst ` set d"
    by (simp add: claimed_index_def)
  with assms(1,2) show ?thesis
    by (cases "actor_name hs (actor' (ootEntranceProperty bl obj))";
        cases "tiedRoom (ootEntranceProperty bl obj)")
       (simp_all add: entrance_step_def entrance_valid_def entrance_ready_def claimed_index_def
          repeated_index_error_def Let_def split: prod.splits)
qed

lemma entrance_step_fresh:
  assumes "entrance_valid bl hs hi obj" "entrance_ready bl hs obj"
    and "claimed_index bl obj \<notin> fst ` set d"
  shows "\<exists>e. entrance_step bl hs sc tf hi d obj = Inr (d @ [(claimed_index bl obj, e)])"
  using assms
  by (cases "actor_name hs (actor' (ootEntranceProperty bl obj))")
     (auto simp: entrance_step_def entrance_valid_def entrance_ready_def claimed_index_def
        Let_def split: prod.splits)

lemma entrance_loop_repeated:
  assumes "\<forall>obj \<in> set objs. entrance_valid bl hs hi obj \<longrightarrow> entrance_ready bl hs obj"
    and "\<not> distinct (map fst d @ map (claimed_index bl) (filter (entrance_valid bl hs hi) objs))"
    and "distinct (map fst d)"
  shows "\<exists>i. entrance_loop bl hs sc tf hi d objs = Inl (repeated_index_error i)
           \<and> 1 < count_list (map fst d @ map (claimed_index bl) (filter (entrance_valid bl hs hi) objs)) i"
  using assms
proof (induction objs arbitrary: d)
  case Nil
  then show ?case by simp
next
  case (Cons obj objs)
  let ?rest = "map (claimed_index bl) (filter (entrance_valid bl hs hi) objs)"
  have ready_rest: "\<forall>obj \<in> set objs. entrance_valid bl hs hi obj \<longrightarrow> entrance_ready bl hs obj"
    using Cons.prems(1) by simp
  show ?case
  proof (cases "entrance_valid bl hs hi obj")
    case False
    then have st: "entrance_step bl hs sc tf hi d obj = Inr d"
      by (rule entrance_step_skip)
    have nd: "\<not> distinct (map fst d @ ?rest)"
      using Cons.prems(2) False by simp
    from Cons.IH [OF ready_rest nd Cons.prems(3)] obtain i where
      "entrance_loop bl hs sc tf hi d objs = Inl (repeated_index_error i)"
      "1 < count_list (map fst d @ ?rest) i" by blast
    with st False show ?thesis by auto
  next
    case True
    with Cons.prems(1) have ready: "entrance_ready bl hs obj" by simp
    let ?k = "claimed_index bl obj"
    show ?thesis
    proof (cases "?k \<in> fst ` set d")
      case inD: True
      then have "count_list (map fst d) ?k \<noteq> 0"
        by (simp add: count_list_0_iff)
      then have c: "1 < count_list (map fst d @ ?k # ?rest) ?k"
        by simp
      have "entrance_loop bl hs sc tf hi d (obj # objs) = Inl (repeated_index_error ?k)"
        using entrance_step_repeated [OF True ready inD, of sc tf] by simp
      with c True show ?thesis by auto
    next
      case notD: False
      from entrance_step_fresh [OF True ready notD, of sc tf] obtain e where
        s: "entrance_step bl hs sc tf hi d obj = Inr (d @ [(?k, e)])" by blast
      let ?d1 = "d @ [(?k, e)]"
      have d1: "distinct (map fst ?d1)"
        using Cons.prems(3) notD by simp
      have nd: "\<not> distinct (map fst ?d1 @ ?rest)"
        using Cons.prems(2) True by simp
      from Cons.IH [OF ready_rest nd d1] obtain i where
        l: "entrance_loop bl hs sc tf hi ?d1 objs = Inl (repeated_index_error i)"
        and c: "1 < count_list (map fst ?d1 @ ?rest) i" by blast
      have "entrance_loop bl hs sc tf hi d (obj # objs) = Inl (repeated_index_error i)"
        using s l by simp
      moreover have "map fst ?d1 @ ?rest
          = map fst d @ map (claimed_index bl) (filter (entrance_valid bl hs hi) (obj # objs))"
        using True by simp
      ultimately show ?thesis using c by metis
    qed
  qed
qed

text \<open>
  Claim C3, in the form that holds for the code. Suppose that every entrance marker the
  build does not skip has a tied room and an actor id that the actor table knows, so
  that no other error comes first. If two such markers claim the same spawn index, the loop of
  \<^verbatim>\<open>SceneEntranceActors.new\<close> itself fails, and so does the build, with the error
  \<^verbatim>\<open>Repeated Spawn Index: i\<close> for a spawn index \<open>i\<close> that at least two of the markers
  claim. The error comes out of the loop: the test for consecutive indices, which
  follows the loop, is never reached.
\<close>

theorem new_entr_repeated:
  assumes "\<forall>obj \<in> set (entrance_markers bl sceneObj).
             entrance_valid bl hs hi obj \<longrightarrow> entrance_ready bl hs obj"
    and "\<not> distinct (map (claimed_index bl)
                       (filter (entrance_valid bl hs hi) (entrance_markers bl sceneObj)))"
  shows "\<exists>i. collect_entrances bl hs sceneObj tf hi = Inl (repeated_index_error i)
           \<and> new_entr bl hs nm sceneObj tf hi = Inl (repeated_index_error i)
           \<and> 1 < count_list (map (claimed_index bl)
                    (filter (entrance_valid bl hs hi) (entrance_markers bl sceneObj))) i"
proof -
  have nd: "\<not> distinct (map fst ([] :: (int \<times> EntranceActor) list)
              @ map (claimed_index bl) (filter (entrance_valid bl hs hi) (entrance_markers bl sceneObj)))"
    using assms(2) by simp
  have "distinct (map fst ([] :: (int \<times> EntranceActor) list))" by simp
  from entrance_loop_repeated [OF assms(1) nd this, of sceneObj tf] obtain i where
    l: "entrance_loop bl hs sceneObj tf hi [] (entrance_markers bl sceneObj) = Inl (repeated_index_error i)"
    and c: "1 < count_list (map (claimed_index bl)
                (filter (entrance_valid bl hs hi) (entrance_markers bl sceneObj))) i"
    by auto
  from l have "collect_entrances bl hs sceneObj tf hi = Inl (repeated_index_error i)"
    by (simp add: collect_entrances_def entrance_markers_def)
  then show ?thesis using c by (auto simp: new_entr_def)
qed


theorem new_entr_repeated_witness:
  "new_entr dup_bl demo_host ''spawns'' 0 () 0
     = Inl (PluginError ''ERROR: Repeated Spawn Index: 1'')"
proof -
  have m: "entrance_markers dup_bl 0 = [6, 5]"
    by (simp add: entrance_markers_def dup_bl_def demo_defs)
  have v: "filter (entrance_valid dup_bl demo_host 0) [6, 5] = [6, 5]"
    by (simp add: entrance_valid_def dup_bl_def demo_defs)
  have r: "\<forall>obj \<in> set (entrance_markers dup_bl 0).
             entrance_valid dup_bl demo_host 0 obj \<longrightarrow> entrance_ready dup_bl demo_host obj"
    by (simp add: m entrance_ready_def dup_bl_def demo_defs)
  have k: "map (claimed_index dup_bl) [6, 5] = [1, 1]"
    by (simp add: claimed_index_def dup_bl_def demo_defs)
  have nd: "\<not> distinct (map (claimed_index dup_bl)
              (filter (entrance_valid dup_bl demo_host 0) (entrance_markers dup_bl 0)))"
    unfolding m v k by simp
  from new_entr_repeated [OF r nd, of "()" "''spawns''"] obtain i where
    e: "new_entr dup_bl demo_host ''spawns'' 0 () 0 = Inl (repeated_index_error i)"
    and c: "1 < count_list [1, 1] i"
    unfolding m v k by auto
  from c have "i = 1" by (auto split: if_splits)
  with e show ?thesis
    by (simp add: repeated_index_error_def str_int_def str_nat.simps digit_char_def)
qed

text \<open>
  Without that supposition another error can come first: the two spawn points of this
  scene both claim slot 1 and neither is skipped, but the second has no tied room, and
  the build ends in the error about the missing room, which names no spawn index.
\<close>

theorem new_entr_repeated_counterexample:
  "entrance_markers dup_noroom_bl 0 = [6, 5]
   \<and> entrance_valid dup_noroom_bl demo_host 0 6 \<and> entrance_valid dup_noroom_bl demo_host 0 5
   \<and> claimed_index dup_noroom_bl 6 = 1 \<and> claimed_index dup_noroom_bl 5 = 1
   \<and> new_entr dup_noroom_bl demo_host ''spawns'' 0 () 0
        = Inl (PluginError ''ERROR: Missing room empty object assigned to the entrance.'')"
  by (simp add: entrance_markers_def entrance_valid_def claimed_index_def new_entr_def
        collect_entrances_def entrance_step_def dup_noroom_bl_def demo_defs)

section \<open>Missing room references\<close>

lemma transition_entry_skip:
  "\<not> transition_valid bl hs hi obj \<Longrightarrow> transition_entry bl hs a2r sc tf hi obj = Inr None"
  by (simp add: transition_entry_def transition_valid_def)















section \<open>The order of the transition actor table\<close>

lemma transition_entry_valid:
  "transition_valid bl hs hi obj \<Longrightarrow> transition_entry bl hs a2r sc tf hi obj \<noteq> Inr None"
  by (cases "actor_name hs (actor (ootTransitionActorProperty bl obj))")
     (auto simp: transition_entry_def transition_valid_def Let_def bind_err_def
           split: prod.splits option.splits sum.splits)

lemma transition_loop_entries:
  "transition_loop bl hs a2r sc tf hi objs = Inr es \<Longrightarrow>
     list_all2 (\<lambda>a obj. transition_entry bl hs a2r sc tf hi obj = Inr (Some a))
       es (filter (transition_valid bl hs hi) objs)"
proof (induction objs arbitrary: es)
  case Nil
  then show ?case by simp
next
  case (Cons x xs)
  from Cons.prems obtain e es' where e: "transition_entry bl hs a2r sc tf hi x = Inr e"
    and l: "transition_loop bl hs a2r sc tf hi xs = Inr es'"
    and es: "es = (case e of None \<Rightarrow> es' | Some a \<Rightarrow> a # es')"
    by (auto simp: bind_err_eq_Inr)
  note IH = Cons.IH [OF l]
  show ?case
  proof (cases "transition_valid bl hs hi x")
    case False
    with e have "e = None" by (simp add: transition_entry_skip)
    with IH es False show ?thesis by simp
  next
    case True
    with e transition_entry_valid [OF True, of a2r sc tf] obtain a where "e = Some a"
      by (cases e) auto
    with IH es e True show ?thesis by simp
  qed
qed


text \<open>
  The room a marker is entered under is the last room container, in the order of the
  list of room containers, that has the marker among its recursive children.
\<close>

lemma fold_children_apply:
  "fold (\<lambda>childObj m'. if P childObj then m'(childObj \<mapsto> room) else m') cs m x
     = (if x \<in> set cs \<and> P x then Some room else m x)"
  by (induction cs arbitrary: m) auto

lemma fold_rooms_apply:
  assumes step: "\<And>room m x. step room m x = (if Q room x then Some room else m x)"
  shows "fold step rooms m x
     = (case filter (\<lambda>room. Q room x) rooms of
          [] \<Rightarrow> m x
        | r # rs \<Rightarrow> Some (last (r # rs)))"
proof (induction rooms arbitrary: m)
  case Nil
  then show ?case by simp
next
  case (Cons room rooms)
  have "fold step (room # rooms) m x = fold step rooms (step room m) x" by simp
  also have "\<dots> = (case filter (\<lambda>room. Q room x) rooms of
          [] \<Rightarrow> step room m x
        | r # rs \<Rightarrow> Some (last (r # rs)))"
    by (rule Cons.IH)
  also have "\<dots> = (case filter (\<lambda>room. Q room x) (room # rooms) of
          [] \<Rightarrow> m x
        | r # rs \<Rightarrow> Some (last (r # rs)))"
    by (simp add: step split: list.splits)
  finally show ?case .
qed

lemma actorToRoom_last:
  "actorToRoom bl sceneObj x
     = (case filter (\<lambda>room. x \<in> set (children_recursive bl room) \<and> is_transition_marker bl x)
               (room_containers bl sceneObj) of
          [] \<Rightarrow> None
        | r # rs \<Rightarrow> Some (last (r # rs)))"
  unfolding actorToRoom_def room_containers_def
  by (rule fold_rooms_apply) (rule fold_children_apply)

lemma last_filter_index:
  assumes "distinct xs" "j < length xs" "P (xs ! j)" "i < length xs"
    and "last (filter P xs) = xs ! i"
  shows "j \<le> i"
proof (rule ccontr)
  assume "\<not> j \<le> i"
  then have ij: "i < j" by simp
  have xs: "xs = take (Suc j) xs @ drop (Suc j) xs" by simp
  have tk: "take (Suc j) xs = take j xs @ [xs ! j]"
    using assms(2) by (simp add: take_Suc_conv_app_nth)
  show False
  proof (cases "filter P (drop (Suc j) xs) = []")
    case True
    have "filter P xs = filter P (take (Suc j) xs) @ filter P (drop (Suc j) xs)"
      by (metis append_take_drop_id filter_append)
    then have "filter P xs = filter P (take j xs) @ [xs ! j]"
      by (simp add: tk True assms(3))
    then have "last (filter P xs) = xs ! j" by simp
    with assms(5) have "xs ! i = xs ! j" by simp
    with assms(1,2,4) ij show False by (simp add: nth_eq_iff_index_eq)
  next
    case False
    have "filter P xs = filter P (take (Suc j) xs) @ filter P (drop (Suc j) xs)"
      by (metis append_take_drop_id filter_append)
    with False have "last (filter P xs) = last (filter P (drop (Suc j) xs))" by simp
    moreover from False have "last (filter P (drop (Suc j) xs)) \<in> set (filter P (drop (Suc j) xs))"
      by (rule last_in_set)
    ultimately have "xs ! i \<in> set (drop (Suc j) xs)" using assms(5) by auto
    then obtain k where k: "k < length (drop (Suc j) xs)" "drop (Suc j) xs ! k = xs ! i"
      by (auto simp: in_set_conv_nth)
    then have "xs ! (Suc j + k) = xs ! i" "Suc j + k < length xs" by auto
    with assms(1,4) have "Suc j + k = i" by (simp add: nth_eq_iff_index_eq)
    with ij show False by simp
  qed
qed

text \<open>
  Blender lists a parent before its children, and the filter keeps that order. When the
  room containers are listed in this way, the room a marker is entered under is the
  innermost room container around it: no other room container that holds the marker lies
  below it.
\<close>

lemma actorToRoom_nearest:
  assumes own: "actorToRoom bl sceneObj x = Some r"
    and dist: "distinct (room_containers bl sceneObj)"
    and parent_first:
      "\<And>i j. i < length (room_containers bl sceneObj) \<Longrightarrow> j < length (room_containers bl sceneObj)
         \<Longrightarrow> room_containers bl sceneObj ! j
               \<in> set (children_recursive bl (room_containers bl sceneObj ! i))
         \<Longrightarrow> i < j"
  shows "r \<in> set (room_containers bl sceneObj) \<and> x \<in> set (children_recursive bl r)
       \<and> is_transition_marker bl x
       \<and> (\<forall>r' \<in> set (room_containers bl sceneObj).
             x \<in> set (children_recursive bl r') \<longrightarrow> r' \<notin> set (children_recursive bl r))"
proof -
  let ?rooms = "room_containers bl sceneObj"
  let ?P = "\<lambda>room. x \<in> set (children_recursive bl room) \<and> is_transition_marker bl x"
  from own have ne: "filter ?P ?rooms \<noteq> []" and r: "r = last (filter ?P ?rooms)"
    by (auto simp: actorToRoom_last split: list.splits)
  from ne have "last (filter ?P ?rooms) \<in> set (filter ?P ?rooms)" by (rule last_in_set)
  with r have rin: "r \<in> set ?rooms" and Pr: "?P r" by auto
  then obtain i where i: "i < length ?rooms" "?rooms ! i = r" by (auto simp: in_set_conv_nth)
  have "r' \<notin> set (children_recursive bl r)"
    if "r' \<in> set ?rooms" "x \<in> set (children_recursive bl r')" for r'
  proof
    assume below: "r' \<in> set (children_recursive bl r)"
    from that obtain j where j: "j < length ?rooms" "?rooms ! j = r'" by (auto simp: in_set_conv_nth)
    from parent_first [OF i(1) j(1)] below i(2) j(2) have "i < j" by simp
    moreover have "j \<le> i"
      using dist j(1) _ i(1)
    proof (rule last_filter_index)
      show "?P (?rooms ! j)" using that(2) Pr j(2) by simp
      show "last (filter ?P ?rooms) = ?rooms ! i" using r i(2) by simp
    qed
    ultimately show False by simp
  qed
  with rin Pr show ?thesis by blast
qed




section \<open>Same-room transitions\<close>

lemma transition_entry_same_room:
  assumes "transition_entry bl hs a2r sc tf hi obj = Inr (Some a)"
    and "\<not> isRoomTransition' (ootTransitionActorProperty bl obj)"
  shows "\<exists>room. a2r obj = Some room
           \<and> roomFrom a = Some (roomIndex' bl room) \<and> roomTo a = Some (roomIndex' bl room)
           \<and> cameraFront a = Some (getPropValue hs (ootTransitionActorProperty bl obj) ''cameraTransitionFront'')
           \<and> cameraBack a = Some (getPropValue hs (ootTransitionActorProperty bl obj) ''cameraTransitionBack'')"
  using assms
  by (cases "actor_name hs (actor (ootTransitionActorProperty bl obj))")
     (auto simp: transition_entry_def Let_def split: prod.splits option.splits if_splits)

lemma transition_entry_flag_unset:
  assumes "transition_entry bl hs a2r sc tf hi obj = Inr (Some a)"
  shows "isRoomTransition a = None"
  using assms
  by (cases "actor_name hs (actor (ootTransitionActorProperty bl obj))")
     (auto simp: transition_entry_def Let_def bind_err_eq_Inr
           split: prod.splits option.splits if_splits)

lemma new_trans_flag_unset:
  assumes "new_trans bl hs nm sceneObj tf hi = Inr t"
  shows "\<forall>a \<in> set (tentries t). isRoomTransition a = None"
proof -
  from assms obtain l where
    "transition_loop bl hs (actorToRoom bl sceneObj) sceneObj tf hi l = Inr (tentries t)"
    by (auto simp: new_trans_def bind_err_eq_Inr)
  from transition_loop_entries [OF this]
  have la: "list_all2
      (\<lambda>a obj. transition_entry bl hs (actorToRoom bl sceneObj) sceneObj tf hi obj = Inr (Some a))
      (tentries t) (filter (transition_valid bl hs hi) l)" .
  show ?thesis
  proof
    fix a
    assume "a \<in> set (tentries t)"
    then obtain i where i: "i < length (tentries t)" "tentries t ! i = a"
      by (auto simp: in_set_conv_nth)
    from list_all2_nthD [OF la i(1)] i(2) show "isRoomTransition a = None"
      by (auto intro: transition_entry_flag_unset)
  qed
qed

text \<open>
  Claim C6. For a marker that is not flagged as room-crossing the entry takes both room
  indices from the room the marker was entered under, and both camera values are paired
  with that index (\<open>transition_entry_same_room\<close>). The field \<^verbatim>\<open>isRoomTransition\<close> of the
  entry, however, is assigned nowhere in \<^verbatim>\<open>SceneTransitionActors.new\<close>: it keeps the
  default \<^verbatim>\<open>None\<close> of the class, for a same-room marker as for a room-crossing one
  (\<open>transition_entry_flag_unset\<close>, \<open>new_trans_flag_unset\<close>), whereas \<^verbatim>\<open>from_data\<close> sets it to
  \<^verbatim>\<open>roomFrom != roomTo\<close>. In the example scene the door 3 stays in room 2, whose room
  index is 1: its entry has both room indices 1 and the flag \<^verbatim>\<open>None\<close>, not \<^verbatim>\<open>False\<close>.
\<close>

theorem new_trans_same_room_flag_unset:
  "\<not> isRoomTransition' (ootTransitionActorProperty demo_bl 3)
   \<and> transition_valid demo_bl demo_host 0 3
   \<and> actorToRoom demo_bl 0 3 = Some 2 \<and> roomIndex' demo_bl 2 = 1
   \<and> transition_entry demo_bl demo_host (actorToRoom demo_bl 0) 0 () 0 3
        = Inr (Some (demo_door 30 1 1))
   \<and> roomFrom (demo_door 30 1 1) = Some 1 \<and> roomTo (demo_door 30 1 1) = Some 1
   \<and> isRoomTransition (demo_door 30 1 1) = None
   \<and> isRoomTransition (demo_door 30 1 1) \<noteq> Some False"
  by (simp add: transition_valid_def actorToRoom_def is_transition_marker_def
        transition_entry_def demo_door_def demo_defs)

section \<open>Rotation expressions\<close>

lemma digit_char_digits: "d < 10 \<Longrightarrow> digit_char d \<in> digits"
  unfolding digit_char_def digits_def by (rule nth_mem) simp

lemma str_nat_digits: "set (str_nat n) \<subseteq> digits"
proof (induction n rule: str_nat.induct)
  case (1 n)
  show ?case
  proof (cases "n < 10")
    case True
    then show ?thesis by (subst str_nat.simps) (simp add: digit_char_digits)
  next
    case False
    with 1 have "set (str_nat (n div 10)) \<subseteq> digits" by simp
    with False show ?thesis by (subst str_nat.simps) (simp add: digit_char_digits)
  qed
qed





section \<open>Parsing rows\<close>





lemma remove_empty_id: "[] \<notin> set ps \<Longrightarrow> remove_empty i ps = ps"
proof (induction i ps rule: remove_empty.induct)
  case (1 i ps)
  then show ?case by (subst remove_empty.simps) (auto dest: nth_mem)
qed




lemma join_nonempty: "fs \<noteq> [] \<Longrightarrow> [] \<notin> set fs \<Longrightarrow> join sep fs \<noteq> []"
  by (induction sep fs rule: join.induct) auto


lemma str_nat_nonempty: "str_nat n \<noteq> []"
  by (subst str_nat.simps) simp

lemma token_str_int: "token (str_int n)"
proof -
  have "set (str_int n) \<subseteq> insert CHR ''-'' digits"
    using str_nat_digits [of "nat n"] str_nat_digits [of "nat (- n)"]
    by (auto simp: str_int_def)
  moreover have "str_int n \<noteq> []"
    by (simp add: str_int_def str_nat_nonempty)
  ultimately show ?thesis
    by (auto simp: token_def digits_def)
qed


















lemma last_join: "fs \<noteq> [] \<Longrightarrow> [] \<notin> set fs \<Longrightarrow> last (join sep fs) = last (last fs)"
  by (induction sep fs rule: join.induct) (auto simp: join_nonempty)






lemma filter_absent: "c \<notin> set s \<Longrightarrow> filter (\<lambda>x. x \<noteq> c) s = s"
  by (induction s) auto

lemma join_blanks:
  "\<forall>f \<in> set fs. CHR '' '' \<notin> set f \<Longrightarrow>
     filter (\<lambda>c. c \<noteq> CHR '' '') (join '', '' fs) = join '','' fs"
  by (induction "'', ''" fs rule: join.induct) (simp_all add: filter_absent)

text \<open>
  The nested row is the text that \<^const>\<open>getEntryC\<close> emits for the entry, reduced to its
  values: the five annotated values, blanks removed, joined by commas.
\<close>

lemma nested_row_actorInfos:
  assumes "CHR '' '' \<notin> set (fmt_opt_str (cameraFront a))" "CHR '' '' \<notin> set (fmt_opt_str (cameraBack a))"
    and "CHR '' '' \<notin> set (id' a)" "CHR '' '' \<notin> set (rot a)" "CHR '' '' \<notin> set (params a)"
  shows "join '','' (map (filter (\<lambda>c. c \<noteq> CHR '' '')) (actorInfos a)) = nested_row a"
proof -
  have d: "CHR '' '' \<notin> set (str_int n)" for n
    using token_str_int [of n] str_nat_digits [of "nat n"] str_nat_digits [of "nat (- n)"]
    by (auto simp: str_int_def digits_def)
  have i: "CHR '' '' \<notin> set (fmt_opt_int v)" for v
    by (cases v) (simp_all add: fmt_opt_int_def d)
  have "filter (\<lambda>c. c \<noteq> CHR '' '') (join '', '' (map (\<lambda>p. str_int (py_round p)) (pos a)))
          = join '','' (map (\<lambda>p. str_int (py_round p)) (pos a))"
    by (rule join_blanks) (simp add: d)
  then show ?thesis
    using assms i
    by (simp add: actorInfos_def roomData_def posData_def sides_def nested_row_def filter_absent)
qed




text \<open>A row without empty fields passes the count only with exactly ten fields.\<close>

lemma from_data_entry_field_count:
  assumes "[] \<notin> set (split_str '','' (replace_str ''}'' [] (replace_str ''{'' [] entry)))"
    and "length (split_str '','' (replace_str ''}'' [] (replace_str ''{'' [] entry))) \<noteq> 10"
  shows "from_data_entry h g entry = Inl AssertionError"
  using assms by (simp add: from_data_entry_def row_params_def remove_empty_id)

text \<open>
  Claim C5. The loop that is commented \<^verbatim>\<open>trailing commas\<close> removes the first empty field
  of the row each time it meets an empty field, wherever that field is, and it skips an
  element after each removal. A row of eleven fields whose second field is empty is
  therefore accepted, the empty field dropped without a word and the other fields moved
  up; a row of ten fields followed by two trailing commas is rejected, because one empty
  field survives the loop.
\<close>

theorem from_data_interior_empty_field:
  "length (drop_trailing_empty
             (split_str '','' ''0,,0x00,1,0x00,ACTOR_EN_DOOR,1,2,3,0x4000,0x0000'')) = 11
   \<and> from_data demo_hexOrDecInt demo_getEvalParams
         ''0,,0x00,1,0x00,ACTOR_EN_DOOR,1,2,3,0x4000,0x0000'' False
       = Inr \<lparr> tname = ''(unset)'',
               tentries = [\<lparr> name = ''(unset)'', id' = ''ACTOR_EN_DOOR'', pos = [1, 2, 3],
                             rot = ''0x4000'', params = ''0x0000'',
                             isRoomTransition = Some True, roomFrom = Some 0, roomTo = Some 1,
                             cameraFront = Some ''0x00'', cameraBack = Some ''0x00'' \<rparr>] \<rparr>
   \<and> length (drop_trailing_empty
               (split_str '','' ''0,0x00,1,0x00,ACTOR_EN_DOOR,1,2,3,0x4000,0x0000,,'')) = 10
   \<and> from_data demo_hexOrDecInt demo_getEvalParams
         ''0,0x00,1,0x00,ACTOR_EN_DOOR,1,2,3,0x4000,0x0000,,'' False
       = Inl AssertionError"
  by code_simp


end
